theory Spec2Isabelle
  imports Complex_Main
begin

section \<open>JSON values and the JavaScript operators the bridge applies to them\<close>

text \<open>
  Everything the bridge declares as \<^verbatim>\<open>any\<close> (request parameters, the \<^verbatim>\<open>result\<close> of a
  response) is a JSON value. A JavaScript \<^verbatim>\<open>undefined\<close> is \<open>None\<close> of an option type.
  Numbers are IEEE doubles in the program; here they are the real numbers they denote,
  and the only thing the bridge ever asks of a number in a JSON value is whether it is
  zero. An object is the list of its members in enumeration order, the keys distinct.
  A JavaScript string is held in UTF-8 form, one \<open>char\<close> a byte.
\<close>

datatype json =
    JNull
  | JBool bool
  | JNum real
  | JStr string
  | JArr "json list"
  | JObj "(string \<times> json) list"

text \<open>JavaScript's ToBoolean, on JSON values.\<close>

fun truthy :: "json \<Rightarrow> bool" where
  "truthy JNull = False"
| "truthy (JBool b) = b"
| "truthy (JNum n) = (n \<noteq> 0)"
| "truthy (JStr s) = (s \<noteq> [])"
| "truthy (JArr xs) = True"
| "truthy (JObj fs) = True"

text \<open>
  The optional member access \<^verbatim>\<open>v?.k\<close>: \<^verbatim>\<open>undefined\<close> when \<open>v\<close> is \<^verbatim>\<open>undefined\<close> or
  \<^verbatim>\<open>null\<close>, the member of an object when it has one. The bridge reads the members
  \<^verbatim>\<open>tools\<close>, \<^verbatim>\<open>content\<close>, \<^verbatim>\<open>resources\<close>, \<^verbatim>\<open>contents\<close>, \<^verbatim>\<open>prompts\<close>, \<^verbatim>\<open>description\<close> and
  \<^verbatim>\<open>messages\<close>; no boolean, number, string or array has a member of one of these names,
  so the access is \<^verbatim>\<open>undefined\<close> on them.
\<close>

fun opt_chain :: "json option \<Rightarrow> string \<Rightarrow> json option" where
  "opt_chain None k = None"
| "opt_chain (Some (JObj fs)) k = map_of fs k"
| "opt_chain (Some v) k = None"

text \<open>The defaulting operator \<^verbatim>\<open>a || d\<close>: \<open>a\<close> when it is truthy, \<open>d\<close> otherwise.\<close>

definition or_default :: "json option \<Rightarrow> json \<Rightarrow> json" where
  "or_default a d = (case a of None \<Rightarrow> d | Some v \<Rightarrow> if truthy v then v else d)"

text \<open>A JavaScript \<^verbatim>\<open>Error\<close> object; the bridge reads nothing of it but its message.\<close>

datatype js_error = Error (message: string)

text \<open>
  What becomes of a promise, and so of the \<^verbatim>\<open>async\<close> function that awaits it: it
  resolves with a value, it rejects with an error, or it stays pending for ever, and the
  code after the \<^verbatim>\<open>await\<close> never runs.
\<close>

datatype 'a promise = Resolved 'a | Rejected js_error | Pending

section \<open>The JSON-RPC envelopes\<close>

text \<open>
  The interfaces \<^verbatim>\<open>JSONRPCRequest\<close> and \<^verbatim>\<open>JSONRPCResponse\<close> of the source, field by
  field (the prefixes keep the two \<^verbatim>\<open>id\<close> and \<^verbatim>\<open>jsonrpc\<close> fields apart). An optional
  field is an option. The parsed body of an HTTP response is taken at the type the source
  declares for it.
\<close>

datatype rpc_id = NumId int | StrId string

record JSONRPCRequest =
  rq_jsonrpc :: string
  rq_method :: string
  rq_params :: "json option"
  rq_id :: rpc_id

record rpc_error =
  err_code :: int
  err_message :: string
  err_data :: "json option"

record JSONRPCResponse =
  rs_jsonrpc :: string
  rs_result :: "json option"
  rs_error :: "rpc_error option"
  rs_id :: rpc_id

text \<open>
  A request as the local stdio session delivers it to a handler. The handlers read
  \<^verbatim>\<open>request.params\<close> and nothing else; \<open>lr_id\<close> is the id the desktop client chose.
\<close>

record local_request =
  lr_id :: rpc_id
  lr_params :: "json option"

section \<open>The HTTP round trip\<close>

text \<open>A chunk of the response body as the socket delivers it: a buffer of bytes.\<close>

type_synonym buffer = "char list"

text \<open>
  What can happen to one \<^verbatim>\<open>makeHttpRequest\<close> call:
  \<^item> an exception while the request is set up inside the promise's executor
    (\<^verbatim>\<open>new URL\<close> on a malformed address);
  \<^item> the request's \<^verbatim>\<open>error\<close> event;
  \<^item> the request's \<^verbatim>\<open>timeout\<close> event;
  \<^item> the response's \<^verbatim>\<open>end\<close> event, after \<^verbatim>\<open>res.statusCode\<close> (which may be
    \<^verbatim>\<open>undefined\<close>) and the chunks of the whole body;
  \<^item> the connection closes after the head of the response and before the end of its body,
    with the status and the chunks received so far. The response then emits \<^verbatim>\<open>aborted\<close> and
    \<^verbatim>\<open>close\<close>, never \<^verbatim>\<open>end\<close>, and the request emits no \<^verbatim>\<open>error\<close>; the bridge listens to
    none of the events that do fire.
\<close>

datatype http_outcome =
    Thrown js_error
  | RequestError js_error
  | RequestTimeout
  | ResponseEnd "nat option" "buffer list"
  | ResponseAborted "nat option" "buffer list"

text \<open>
  What the bridge uses and does not define: \<^verbatim>\<open>JSON.parse\<close> on a response text (\<open>None\<close>
  when it throws), \<^verbatim>\<open>JSON.stringify\<close> on a value, \<^verbatim>\<open>toString\<close> on a buffer (the UTF-8
  decoder), the remote endpoint's answer to a posted request, and whether
  \<^verbatim>\<open>server.connect\<close> on the stdio transport succeeds.
\<close>

record platform =
  JSON_parse :: "string \<Rightarrow> JSONRPCResponse option"
  JSON_stringify :: "json \<Rightarrow> string"
  Buffer_toString :: "buffer \<Rightarrow> string"
  remote :: "JSONRPCRequest \<Rightarrow> http_outcome"
  stdio_connect :: "js_error + unit"

text \<open>A number in a template literal (the status code): its decimal digits.\<close>

fun show_nat :: "nat \<Rightarrow> string" where
  "show_nat n =
     (if n < 10 then [''0123456789'' ! n]
      else show_nat (n div 10) @ [''0123456789'' ! (n mod 10)])"

declare show_nat.simps [simp del]

definition status_text :: "nat option \<Rightarrow> string" where
  "status_text statusCode = (case statusCode of None \<Rightarrow> ''undefined'' | Some n \<Rightarrow> show_nat n)"

text \<open>
  The test \<^verbatim>\<open>res.statusCode && res.statusCode >= 200 && res.statusCode < 300\<close>.
\<close>

definition status_ok :: "nat option \<Rightarrow> bool" where
  "status_ok statusCode =
     (case statusCode of None \<Rightarrow> False | Some n \<Rightarrow> n \<noteq> 0 \<and> 200 \<le> n \<and> n < 300)"

text \<open>
  The \<^verbatim>\<open>data\<close> handler, \<^verbatim>\<open>responseData += chunk.toString()\<close>, run over the chunks: each
  chunk is decoded on its own and the texts are appended.
\<close>

definition received :: "platform \<Rightarrow> buffer list \<Rightarrow> string" where
  "received p chunks =
     foldl (\<lambda>responseData chunk. responseData @ Buffer_toString p chunk) [] chunks"

text \<open>
  The \<^verbatim>\<open>end\<close> handler: inside its \<^verbatim>\<open>try\<close>, a status in range parses the text and
  resolves, any other status rejects; the \<^verbatim>\<open>catch\<close> turns the exception of
  \<^verbatim>\<open>JSON.parse\<close> into a rejection.
\<close>

definition on_end :: "platform \<Rightarrow> nat option \<Rightarrow> string \<Rightarrow> JSONRPCResponse promise" where
  "on_end p statusCode responseData =
     (if status_ok statusCode then
        (case JSON_parse p responseData of
           Some parsed \<Rightarrow> Resolved parsed
         | None \<Rightarrow> Rejected (Error (''Invalid JSON response: '' @ responseData)))
      else Rejected (Error (''HTTP '' @ status_text statusCode @ '': '' @ responseData)))"

text \<open>
  \<^verbatim>\<open>makeHttpRequest\<close>, by the first event that settles its promise. A response that is
  cut off settles nothing: no listener of the bridge runs, and the promise stays pending.
\<close>

definition makeHttpRequest :: "platform \<Rightarrow> JSONRPCRequest \<Rightarrow> JSONRPCResponse promise" where
  "makeHttpRequest p data =
     (case remote p data of
        Thrown e \<Rightarrow> Rejected e
      | RequestError e \<Rightarrow> Rejected e
      | RequestTimeout \<Rightarrow> Rejected (Error ''Request timeout'')
      | ResponseEnd statusCode chunks \<Rightarrow> on_end p statusCode (received p chunks)
      | ResponseAborted statusCode chunks \<Rightarrow> Pending)"

section \<open>Correlation ids\<close>

text \<open>
  \<^verbatim>\<open>Math.random() * 1000000\<close> is a product of doubles, rounded to the nearest double, ties
  to the even significand. For a positive real below the overflow threshold, \<open>binade\<close> is
  the exponent of the binade it lies in (that of the smallest normal double for a
  subnormal), \<open>ulp\<close> the distance of the doubles of that binade, and \<open>round_double\<close> the
  nearest multiple of it. A real is a double when rounding leaves it as it is.
\<close>

definition binade :: "real \<Rightarrow> int" where
  "binade x = max \<lfloor>log 2 x\<rfloor> (- 1022)"

definition ulp :: "real \<Rightarrow> real" where
  "ulp x = 2 powr real_of_int (binade x - 52)"

definition nearest_even :: "real \<Rightarrow> int" where
  "nearest_even y =
     (let f = \<lfloor>y\<rfloor> in
      if y - of_int f < 1 / 2 then f
      else if 1 / 2 < y - of_int f then f + 1
      else if even f then f else f + 1)"

definition round_double :: "real \<Rightarrow> real" where
  "round_double x = (if x = 0 then 0 else of_int (nearest_even (x / ulp x)) * ulp x)"

definition is_double :: "real \<Rightarrow> bool" where
  "is_double x = (round_double x = x)"

text \<open>
  \<^verbatim>\<open>Math.floor(Math.random() * 1000000)\<close>; the argument is the double \<^verbatim>\<open>Math.random()\<close>
  returned, which lies in \<open>[0, 1)\<close>.
\<close>

definition generateId :: "real \<Rightarrow> int" where
  "generateId rnd = \<lfloor>round_double (rnd * 1000000)\<rfloor>"

section \<open>The request handlers\<close>

text \<open>
  Each handler of \<^verbatim>\<open>setupHandlers\<close> is three steps: the request it posts, the round trip
  it awaits, and the reply it makes of the awaited outcome. The reply function is the
  \<^verbatim>\<open>try\<close> block after the \<^verbatim>\<open>await\<close> together with the \<^verbatim>\<open>catch\<close>: a rejected round trip
  and an exception thrown in the block both reach the \<^verbatim>\<open>catch\<close>, and a round trip that
  stays pending leaves the handler pending. \<open>Resolved\<close> holds the value the handler returns
  to the local session, \<open>Rejected\<close> the error it throws. The log lines go to the error
  stream and are left out here, but for the one that can throw (below); \<open>rnd\<close> is the value
  of \<^verbatim>\<open>Math.random()\<close>. The local session hands a handler only requests that passed its
  schema, so the tool name the tools/call handler logs before its \<^verbatim>\<open>try\<close> is a string.
\<close>

subsection \<open>tools/list\<close>

definition tools_list_request :: "real \<Rightarrow> JSONRPCRequest" where
  "tools_list_request rnd =
     \<lparr>rq_jsonrpc = ''2.0'', rq_method = ''tools/list'', rq_params = Some (JObj []),
      rq_id = NumId (generateId rnd)\<rparr>"

text \<open>
  Inside its \<^verbatim>\<open>try\<close> the handler logs \<^verbatim>\<open>tools.length\<close> in a template literal, which
  converts it to a string. \<open>length_of\<close> is the member \<^verbatim>\<open>length\<close> of a truthy value: the
  length of an array or a string, the member of that name of an object, \<^verbatim>\<open>undefined\<close>
  otherwise. The conversion throws a TypeError on an object that has a member named
  \<^verbatim>\<open>toString\<close> (a JSON value is never callable, and the inherited \<^verbatim>\<open>valueOf\<close> returns the
  object), and on an array that joins such an element; the \<^verbatim>\<open>catch\<close> receives it.
\<close>

definition length_of :: "json \<Rightarrow> json option" where
  "length_of v =
     (case v of
        JArr xs \<Rightarrow> Some (JNum (real (length xs)))
      | JStr s \<Rightarrow> Some (JNum (real (length s)))
      | JObj fs \<Rightarrow> map_of fs ''length''
      | _ \<Rightarrow> None)"

fun to_string_throws :: "json \<Rightarrow> bool" where
  "to_string_throws (JObj fs) = (''toString'' \<in> set (map fst fs))"
| "to_string_throws (JArr xs) = list_ex to_string_throws xs"
| "to_string_throws v = False"

definition tools_list_try :: "JSONRPCResponse promise \<Rightarrow> json promise" where
  "tools_list_try awaited =
     (case awaited of
        Pending \<Rightarrow> Pending
      | Rejected e \<Rightarrow> Rejected e
      | Resolved response \<Rightarrow>
          (case rs_error response of
             Some err \<Rightarrow> Rejected (Error (err_message err))
           | None \<Rightarrow>
               (let tools = or_default (opt_chain (rs_result response) ''tools'') (JArr [])
                in if (case length_of tools of None \<Rightarrow> False | Some n \<Rightarrow> to_string_throws n)
                   then Rejected (Error ''Cannot convert object to primitive value'')
                   else Resolved (JObj [(''tools'', tools)]))))"

definition tools_list_reply :: "JSONRPCResponse promise \<Rightarrow> json promise" where
  "tools_list_reply awaited =
     (case tools_list_try awaited of
        Pending \<Rightarrow> Pending
      | Rejected e \<Rightarrow> Rejected (Error (''Failed to get tools: '' @ message e))
      | Resolved reply \<Rightarrow> Resolved reply)"

definition tools_list_handler :: "platform \<Rightarrow> real \<Rightarrow> json promise" where
  "tools_list_handler p rnd = tools_list_reply (makeHttpRequest p (tools_list_request rnd))"

subsection \<open>tools/call\<close>

definition tools_call_request :: "local_request \<Rightarrow> real \<Rightarrow> JSONRPCRequest" where
  "tools_call_request request rnd =
     \<lparr>rq_jsonrpc = ''2.0'', rq_method = ''tools/call'', rq_params = lr_params request,
      rq_id = NumId (generateId rnd)\<rparr>"

definition tools_call_try :: "(json \<Rightarrow> string) \<Rightarrow> JSONRPCResponse promise \<Rightarrow> json promise" where
  "tools_call_try stringify awaited =
     (case awaited of
        Pending \<Rightarrow> Pending
      | Rejected e \<Rightarrow> Rejected e
      | Resolved response \<Rightarrow>
          (case rs_error response of
             Some err \<Rightarrow> Rejected (Error (err_message err))
           | None \<Rightarrow>
               Resolved (JObj [(''content'',
                 or_default (opt_chain (rs_result response) ''content'')
                   (JArr [JObj [(''type'', JStr ''text''),
                                (''text'', JStr (stringify
                                   (or_default (rs_result response) (JObj []))))]]))])))"

definition tools_call_reply :: "(json \<Rightarrow> string) \<Rightarrow> JSONRPCResponse promise \<Rightarrow> json promise" where
  "tools_call_reply stringify awaited =
     (case tools_call_try stringify awaited of
        Pending \<Rightarrow> Pending
      | Rejected e \<Rightarrow> Rejected (Error (''Tool execution failed: '' @ message e))
      | Resolved reply \<Rightarrow> Resolved reply)"

definition tools_call_handler :: "platform \<Rightarrow> local_request \<Rightarrow> real \<Rightarrow> json promise" where
  "tools_call_handler p request rnd =
     tools_call_reply (JSON_stringify p) (makeHttpRequest p (tools_call_request request rnd))"

subsection \<open>resources/list\<close>

definition resources_list_request :: "real \<Rightarrow> JSONRPCRequest" where
  "resources_list_request rnd =
     \<lparr>rq_jsonrpc = ''2.0'', rq_method = ''resources/list'', rq_params = Some (JObj []),
      rq_id = NumId (generateId rnd)\<rparr>"

definition resources_list_try :: "JSONRPCResponse promise \<Rightarrow> json promise" where
  "resources_list_try awaited =
     (case awaited of
        Pending \<Rightarrow> Pending
      | Rejected e \<Rightarrow> Rejected e
      | Resolved response \<Rightarrow>
          Resolved (JObj [(''resources'',
            or_default (opt_chain (rs_result response) ''resources'') (JArr []))]))"

definition resources_list_reply :: "JSONRPCResponse promise \<Rightarrow> json promise" where
  "resources_list_reply awaited =
     (case resources_list_try awaited of
        Pending \<Rightarrow> Pending
      | Rejected e \<Rightarrow> Resolved (JObj [(''resources'', JArr [])])
      | Resolved reply \<Rightarrow> Resolved reply)"

definition resources_list_handler :: "platform \<Rightarrow> real \<Rightarrow> json promise" where
  "resources_list_handler p rnd =
     resources_list_reply (makeHttpRequest p (resources_list_request rnd))"

subsection \<open>resources/read\<close>

definition resources_read_request :: "local_request \<Rightarrow> real \<Rightarrow> JSONRPCRequest" where
  "resources_read_request request rnd =
     \<lparr>rq_jsonrpc = ''2.0'', rq_method = ''resources/read'', rq_params = lr_params request,
      rq_id = NumId (generateId rnd)\<rparr>"

definition resources_read_try :: "JSONRPCResponse promise \<Rightarrow> json promise" where
  "resources_read_try awaited =
     (case awaited of
        Pending \<Rightarrow> Pending
      | Rejected e \<Rightarrow> Rejected e
      | Resolved response \<Rightarrow>
          Resolved (JObj [(''contents'',
            or_default (opt_chain (rs_result response) ''contents'') (JArr []))]))"

definition resources_read_reply :: "JSONRPCResponse promise \<Rightarrow> json promise" where
  "resources_read_reply awaited =
     (case resources_read_try awaited of
        Pending \<Rightarrow> Pending
      | Rejected e \<Rightarrow> Resolved (JObj [(''contents'', JArr [])])
      | Resolved reply \<Rightarrow> Resolved reply)"

definition resources_read_handler :: "platform \<Rightarrow> local_request \<Rightarrow> real \<Rightarrow> json promise" where
  "resources_read_handler p request rnd =
     resources_read_reply (makeHttpRequest p (resources_read_request request rnd))"

subsection \<open>prompts/list\<close>

definition prompts_list_request :: "real \<Rightarrow> JSONRPCRequest" where
  "prompts_list_request rnd =
     \<lparr>rq_jsonrpc = ''2.0'', rq_method = ''prompts/list'', rq_params = Some (JObj []),
      rq_id = NumId (generateId rnd)\<rparr>"

definition prompts_list_try :: "JSONRPCResponse promise \<Rightarrow> json promise" where
  "prompts_list_try awaited =
     (case awaited of
        Pending \<Rightarrow> Pending
      | Rejected e \<Rightarrow> Rejected e
      | Resolved response \<Rightarrow>
          Resolved (JObj [(''prompts'',
            or_default (opt_chain (rs_result response) ''prompts'') (JArr []))]))"

definition prompts_list_reply :: "JSONRPCResponse promise \<Rightarrow> json promise" where
  "prompts_list_reply awaited =
     (case prompts_list_try awaited of
        Pending \<Rightarrow> Pending
      | Rejected e \<Rightarrow> Resolved (JObj [(''prompts'', JArr [])])
      | Resolved reply \<Rightarrow> Resolved reply)"

definition prompts_list_handler :: "platform \<Rightarrow> real \<Rightarrow> json promise" where
  "prompts_list_handler p rnd =
     prompts_list_reply (makeHttpRequest p (prompts_list_request rnd))"

subsection \<open>prompts/get\<close>

definition prompts_get_request :: "local_request \<Rightarrow> real \<Rightarrow> JSONRPCRequest" where
  "prompts_get_request request rnd =
     \<lparr>rq_jsonrpc = ''2.0'', rq_method = ''prompts/get'', rq_params = lr_params request,
      rq_id = NumId (generateId rnd)\<rparr>"

definition prompts_get_try :: "JSONRPCResponse promise \<Rightarrow> json promise" where
  "prompts_get_try awaited =
     (case awaited of
        Pending \<Rightarrow> Pending
      | Rejected e \<Rightarrow> Rejected e
      | Resolved response \<Rightarrow>
          Resolved (JObj [(''description'',
                      or_default (opt_chain (rs_result response) ''description'') (JStr [])),
                     (''messages'',
                      or_default (opt_chain (rs_result response) ''messages'') (JArr []))]))"

definition prompts_get_reply :: "JSONRPCResponse promise \<Rightarrow> json promise" where
  "prompts_get_reply awaited =
     (case prompts_get_try awaited of
        Pending \<Rightarrow> Pending
      | Rejected e \<Rightarrow> Resolved (JObj [(''description'', JStr []), (''messages'', JArr [])])
      | Resolved reply \<Rightarrow> Resolved reply)"

definition prompts_get_handler :: "platform \<Rightarrow> local_request \<Rightarrow> real \<Rightarrow> json promise" where
  "prompts_get_handler p request rnd =
     prompts_get_reply (makeHttpRequest p (prompts_get_request request rnd))"

subsection \<open>The registration\<close>

text \<open>
  \<^verbatim>\<open>setupHandlers\<close> registers one handler under each of six request schemas; the local
  session calls the handler of the schema an incoming request matches.
\<close>

datatype schema =
    ListToolsRequestSchema
  | CallToolRequestSchema
  | ListResourcesRequestSchema
  | ReadResourceRequestSchema
  | ListPromptsRequestSchema
  | GetPromptRequestSchema

fun setupHandlers :: "platform \<Rightarrow> schema \<Rightarrow> local_request \<Rightarrow> real \<Rightarrow> json promise" where
  "setupHandlers p ListToolsRequestSchema request rnd = tools_list_handler p rnd"
| "setupHandlers p CallToolRequestSchema request rnd = tools_call_handler p request rnd"
| "setupHandlers p ListResourcesRequestSchema request rnd = resources_list_handler p rnd"
| "setupHandlers p ReadResourceRequestSchema request rnd = resources_read_handler p request rnd"
| "setupHandlers p ListPromptsRequestSchema request rnd = prompts_list_handler p rnd"
| "setupHandlers p GetPromptRequestSchema request rnd = prompts_get_handler p request rnd"

text \<open>The request a schema's handler posts, and the reply it makes of the awaited outcome.\<close>

fun outgoing :: "schema \<Rightarrow> local_request \<Rightarrow> real \<Rightarrow> JSONRPCRequest" where
  "outgoing ListToolsRequestSchema request rnd = tools_list_request rnd"
| "outgoing CallToolRequestSchema request rnd = tools_call_request request rnd"
| "outgoing ListResourcesRequestSchema request rnd = resources_list_request rnd"
| "outgoing ReadResourceRequestSchema request rnd = resources_read_request request rnd"
| "outgoing ListPromptsRequestSchema request rnd = prompts_list_request rnd"
| "outgoing GetPromptRequestSchema request rnd = prompts_get_request request rnd"

fun reply_of :: "(json \<Rightarrow> string) \<Rightarrow> schema \<Rightarrow> JSONRPCResponse promise \<Rightarrow> json promise" where
  "reply_of stringify ListToolsRequestSchema awaited = tools_list_reply awaited"
| "reply_of stringify CallToolRequestSchema awaited = tools_call_reply stringify awaited"
| "reply_of stringify ListResourcesRequestSchema awaited = resources_list_reply awaited"
| "reply_of stringify ReadResourceRequestSchema awaited = resources_read_reply awaited"
| "reply_of stringify ListPromptsRequestSchema awaited = prompts_list_reply awaited"
| "reply_of stringify GetPromptRequestSchema awaited = prompts_get_reply awaited"

section \<open>Startup\<close>

text \<open>
  The lines \<^verbatim>\<open>start\<close> writes to the error stream, without their time stamps.
\<close>

datatype log_line =
    LogStarting
  | LogProbeConnected
  | LogProbeFailed string
  | LogContinuingAnyway
  | LogStartingStdio
  | LogBridgeStarted
  | LogWaiting
  | LogFatal string

text \<open>
  The session is \<open>Probing\<close> until \<^verbatim>\<open>server.connect\<close> has attached the stdio transport,
  and \<open>Serving\<close> from then on.
\<close>

datatype session_state = Probing | Serving

record started =
  st_log :: "log_line list"
  st_state :: session_state
  st_outcome :: "unit promise"

definition initialize_request :: JSONRPCRequest where
  "initialize_request =
     \<lparr>rq_jsonrpc = ''2.0'', rq_method = ''initialize'',
      rq_params = Some (JObj
        [(''protocolVersion'', JStr ''2024-11-05''),
         (''capabilities'', JObj []),
         (''clientInfo'', JObj [(''name'', JStr ''FlowMattic MCP Remote''),
                                (''version'', JStr ''1.0.0'')])]),
      rq_id = NumId 1\<rparr>"

text \<open>
  The rest of \<^verbatim>\<open>start\<close> once the probe has settled and its line is logged: the stdio
  transport is connected. Only a failure of \<^verbatim>\<open>server.connect\<close> reaches the outer
  \<^verbatim>\<open>catch\<close>, which logs it and throws it again.
\<close>

definition connect_stdio :: "platform \<Rightarrow> log_line list \<Rightarrow> started" where
  "connect_stdio p probe_log =
     (case stdio_connect p of
        Inr u \<Rightarrow>
          \<lparr>st_log = [LogStarting] @ probe_log @ [LogStartingStdio, LogBridgeStarted, LogWaiting],
           st_state = Serving,
           st_outcome = Resolved ()\<rparr>
      | Inl e \<Rightarrow>
          \<lparr>st_log = [LogStarting] @ probe_log @ [LogStartingStdio, LogFatal (message e)],
           st_state = Probing,
           st_outcome = Rejected e\<rparr>)"

text \<open>
  \<^verbatim>\<open>start\<close>: the inner \<^verbatim>\<open>try\<close> awaits the probe and its \<^verbatim>\<open>catch\<close> logs a failure. While
  the probe is pending \<^verbatim>\<open>start\<close> is pending at that \<^verbatim>\<open>await\<close>: nothing after it runs and
  \<^verbatim>\<open>server.connect\<close> is never called.
\<close>

definition start :: "platform \<Rightarrow> started" where
  "start p =
     (case makeHttpRequest p initialize_request of
        Resolved response \<Rightarrow> connect_stdio p [LogProbeConnected]
      | Rejected e \<Rightarrow> connect_stdio p [LogProbeFailed (message e), LogContinuingAnyway]
      | Pending \<Rightarrow> \<lparr>st_log = [LogStarting], st_state = Probing, st_outcome = Pending\<rparr>)"

text \<open>
  A request the local client sends after startup. Once the stdio transport is attached the
  handler of its schema answers it; while it is not, nothing reads the request (\<open>None\<close>).
\<close>

definition serve :: "platform \<Rightarrow> schema \<Rightarrow> local_request \<Rightarrow> real \<Rightarrow> json promise option" where
  "serve p s request rnd =
     (if st_state (start p) = Serving then Some (setupHandlers p s request rnd) else None)"

section \<open>Populated results and remote failures\<close>

text \<open>
  The members of the remote result a handler copies into its reply, in the order of the
  object it returns.
\<close>

fun reply_members :: "schema \<Rightarrow> string list" where
  "reply_members ListToolsRequestSchema = [''tools'']"
| "reply_members CallToolRequestSchema = [''content'']"
| "reply_members ListResourcesRequestSchema = [''resources'']"
| "reply_members ReadResourceRequestSchema = [''contents'']"
| "reply_members ListPromptsRequestSchema = [''prompts'']"
| "reply_members GetPromptRequestSchema = [''description'', ''messages'']"

text \<open>
  A populated result: an object that holds every member its handler copies, each of the
  type the protocol gives it, a string for the description and an array for the others.
\<close>

fun is_array :: "json \<Rightarrow> bool" where
  "is_array (JArr xs) = True"
| "is_array v = False"

fun is_string :: "json \<Rightarrow> bool" where
  "is_string (JStr s) = True"
| "is_string v = False"

definition populated :: "schema \<Rightarrow> (string \<times> json) list \<Rightarrow> bool" where
  "populated s fs =
     list_all (\<lambda>k. case map_of fs k of
                      None \<Rightarrow> False
                    | Some v \<Rightarrow> if k = ''description'' then is_string v else is_array v)
       (reply_members s)"

text \<open>
  A remote failure that the round trip reports: it fails in transport with an event the
  bridge listens to, the response ends with a status outside 200 to 299 or with a text
  that does not parse, or the parsed response carries an error and, being well formed, no
  result (the member is missing, or \<^verbatim>\<open>null\<close> as older servers send it). A response that
  is cut off is a remote failure too, and is not among these.
\<close>

definition reported_failure :: "platform \<Rightarrow> JSONRPCRequest \<Rightarrow> bool" where
  "reported_failure p data =
     (case remote p data of
        Thrown e \<Rightarrow> True
      | RequestError e \<Rightarrow> True
      | RequestTimeout \<Rightarrow> True
      | ResponseEnd statusCode chunks \<Rightarrow>
          (case statusCode of None \<Rightarrow> True | Some n \<Rightarrow> n < 200 \<or> 299 < n)
          \<or> (case JSON_parse p (received p chunks) of
                None \<Rightarrow> True
              | Some response \<Rightarrow>
                  rs_error response \<noteq> None \<and>
                  (rs_result response = None \<or> rs_result response = Some JNull))
      | ResponseAborted statusCode chunks \<Rightarrow> False)"

section \<open>Example environments\<close>

text \<open>
  A serialiser to stand for \<^verbatim>\<open>JSON.stringify\<close> in the examples. It prints what
  \<^verbatim>\<open>JSON.stringify\<close> prints for \<^verbatim>\<open>null\<close>, booleans, integers of ordinary size, strings
  that need no escape, and arrays and objects of these (of a fraction it prints the
  integer part). The theorems below hold for every serialiser.
\<close>

fun commas :: "string list \<Rightarrow> string" where
  "commas [] = []"
| "commas [x] = x"
| "commas (x # y # ys) = x @ '','' @ commas (y # ys)"

definition quoted :: "string \<Rightarrow> string" where
  "quoted s = [CHR 0x22] @ s @ [CHR 0x22]"

fun stringify_plain :: "json \<Rightarrow> string" where
  "stringify_plain JNull = ''null''"
| "stringify_plain (JBool b) = (if b then ''true'' else ''false'')"
| "stringify_plain (JNum n) = (if n < 0 then ''-'' else []) @ show_nat (nat \<lfloor>\<bar>n\<bar>\<rfloor>)"
| "stringify_plain (JStr s) = quoted s"
| "stringify_plain (JArr xs) = ''['' @ commas (map stringify_plain xs) @ '']''"
| "stringify_plain (JObj fs) =
     ''{'' @ commas (map (\<lambda>kv. quoted (fst kv) @ '':'' @ stringify_plain (snd kv)) fs) @ ''}''"

text \<open>
  A decoder to stand for \<^verbatim>\<open>toString\<close> on a buffer in the examples. It decodes what the
  UTF-8 decoder decodes for buffers of one-byte and two-byte characters, whole or cut: a
  byte below 128 and a lead byte from 194 to 223 with its continuation byte are kept, and
  every other byte becomes the replacement character U+FFFD (in UTF-8 the bytes EF BF BD).
  The lemmas below hold for every decoder.
\<close>

definition replacement :: string where
  "replacement = [CHR 0xEF, CHR 0xBF, CHR 0xBD]"

fun utf8_text :: "buffer \<Rightarrow> string" where
  "utf8_text [] = []"
| "utf8_text [b] = (if (of_char b :: nat) < 128 then [b] else replacement)"
| "utf8_text (b # c # bs) =
     (if (of_char b :: nat) < 128 then b # utf8_text (c # bs)
      else if 194 \<le> (of_char b :: nat) \<and> (of_char b :: nat) \<le> 223 \<and>
              128 \<le> (of_char c :: nat) \<and> (of_char c :: nat) \<le> 191
      then b # c # utf8_text bs
      else replacement @ utf8_text (c # bs))"

text \<open>
  An endpoint that gives every request the same outcome, with the texts it can parse
  given as a table; the stdio transport connects.
\<close>

definition endpoint :: "(string \<rightharpoonup> JSONRPCResponse) \<Rightarrow> http_outcome \<Rightarrow> platform" where
  "endpoint bodies outcome =
     \<lparr>JSON_parse = bodies, JSON_stringify = stringify_plain, Buffer_toString = utf8_text,
      remote = (\<lambda>data. outcome), stdio_connect = Inr ()\<rparr>"

definition success_response :: "json \<Rightarrow> JSONRPCResponse" where
  "success_response r =
     \<lparr>rs_jsonrpc = ''2.0'', rs_result = Some r, rs_error = None, rs_id = NumId 7\<rparr>"

definition error_response :: "int \<Rightarrow> string \<Rightarrow> JSONRPCResponse" where
  "error_response c m =
     \<lparr>rs_jsonrpc = ''2.0'', rs_result = None,
      rs_error = Some \<lparr>err_code = c, err_message = m, err_data = None\<rparr>, rs_id = NumId 7\<rparr>"

section \<open>Facts about rounding to a double\<close>

lemma nearest_even_ge: "of_int k \<le> y \<Longrightarrow> k \<le> nearest_even y"
proof -
  assume "of_int k \<le> y"
  then have "k \<le> \<lfloor>y\<rfloor>" by (simp add: le_floor_iff)
  moreover have "\<lfloor>y\<rfloor> \<le> nearest_even y" by (simp add: nearest_even_def Let_def)
  ultimately show ?thesis by simp
qed

lemma nearest_even_le: "y < of_int k + 1 / 2 \<Longrightarrow> nearest_even y \<le> k"
proof -
  assume y: "y < of_int k + 1 / 2"
  have "\<lfloor>y\<rfloor> \<le> k" using y by (simp add: floor_le_iff)
  then consider "\<lfloor>y\<rfloor> = k" | "\<lfloor>y\<rfloor> + 1 \<le> k" by linarith
  then show ?thesis
  proof cases
    case 1
    with y have "y - of_int \<lfloor>y\<rfloor> < 1 / 2" by simp
    with 1 show ?thesis by (simp add: nearest_even_def)
  next
    case 2
    then show ?thesis by (auto simp: nearest_even_def Let_def)
  qed
qed

lemma powr2_mono: "a \<le> b \<Longrightarrow> (2::real) powr real_of_int a \<le> 2 powr real_of_int b"
  by simp

lemma ulp_pos: "0 < ulp x"
  by (simp add: ulp_def)

lemma round_double_nonneg: "0 \<le> x \<Longrightarrow> 0 \<le> round_double x"
proof (cases "x = 0")
  case True
  then show ?thesis by (simp add: round_double_def)
next
  case False
  assume "0 \<le> x"
  then have "of_int 0 \<le> x / ulp x" using ulp_pos [of x] by simp
  then have "0 \<le> nearest_even (x / ulp x)" by (rule nearest_even_ge)
  with False ulp_pos [of x] show ?thesis by (simp add: round_double_def)
qed

lemma binade_eqI:
  assumes "0 < x" "2 powr real_of_int e \<le> x" "x < 2 powr real_of_int (e + 1)" "- 1022 \<le> e"
  shows "binade x = e"
proof -
  have "\<lfloor>log 2 x\<rfloor> = e" using assms by (simp add: floor_log_eq_powr_iff)
  with assms show ?thesis by (simp add: binade_def)
qed

lemma round_double_in_binade:
  assumes "0 < x" "2 powr real_of_int e \<le> x" "x < 2 powr real_of_int (e + 1)" "- 1022 \<le> e"
  shows "round_double x =
           of_int (nearest_even (x / 2 powr real_of_int (e - 52))) * 2 powr real_of_int (e - 52)"
  using binade_eqI [OF assms] assms(1) by (simp add: round_double_def ulp_def)

lemma below_next_binade:
  assumes "0 < x"
  shows "x < 2 powr real_of_int (binade x + 1)"
proof -
  have "x < 2 powr real_of_int (\<lfloor>log 2 x\<rfloor> + 1)"
    using assms floor_log_eq_powr_iff [of x 2 "\<lfloor>log 2 x\<rfloor>"] by simp
  also have "\<dots> \<le> 2 powr real_of_int (binade x + 1)"
    by (simp add: binade_def)
  finally show ?thesis .
qed

lemma round_double_le_next_binade:
  assumes "0 < x"
  shows "round_double x \<le> 2 powr real_of_int (binade x + 1)"
proof -
  have split: "2 powr real_of_int (binade x + 1) = (2 ^ 53) * ulp x"
  proof -
    have "real_of_int (binade x + 1) = 53 + real_of_int (binade x - 52)" by simp
    then have "2 powr real_of_int (binade x + 1) = 2 powr 53 * 2 powr real_of_int (binade x - 52)"
      by (simp only: powr_add)
    then show ?thesis by (simp add: ulp_def)
  qed
  with below_next_binade [OF assms] have "x / ulp x < 2 ^ 53"
    using ulp_pos [of x] by (simp add: pos_divide_less_eq)
  moreover have "real_of_int (2 ^ 53) = 2 ^ 53" by simp
  ultimately have "x / ulp x < real_of_int (2 ^ 53) + 1 / 2" by linarith
  then have "nearest_even (x / ulp x) \<le> 2 ^ 53" by (rule nearest_even_le)
  then have "real_of_int (nearest_even (x / ulp x)) \<le> real_of_int (2 ^ 53)"
    by (simp only: of_int_le_iff)
  then have "real_of_int (nearest_even (x / ulp x)) \<le> 2 ^ 53" by simp
  then have "of_int (nearest_even (x / ulp x)) * ulp x \<le> (2 ^ 53) * ulp x"
    using ulp_pos [of x] by (simp add: mult_right_mono)
  with assms split show ?thesis by (simp add: round_double_def)
qed

lemma binade_le:
  assumes "0 < x" "x < 2 powr real_of_int (e + 1)" "- 1022 \<le> e"
  shows "binade x \<le> e"
proof -
  have "log 2 x < real_of_int (e + 1)"
    using assms by (simp add: log_less_iff)
  then have "\<lfloor>log 2 x\<rfloor> < e + 1" by (simp only: floor_less_iff)
  with assms show ?thesis by (simp add: binade_def)
qed

text \<open>A double below 1 is at most \<open>1 - 1 / 2 ^ 53\<close>, the largest of them.\<close>

lemma double_below_one:
  assumes "is_double rnd" "0 \<le> rnd" "rnd < 1"
  shows "rnd \<le> 1 - 1 / 2 ^ 53"
proof (cases "rnd = 0")
  case True
  then show ?thesis by simp
next
  case False
  with assms have pos: "0 < rnd" by simp
  have b: "binade rnd \<le> - 1"
    using binade_le [of rnd "- 1"] pos assms(3) by simp
  from assms(1) False have rep: "rnd = of_int (nearest_even (rnd / ulp rnd)) * ulp rnd"
    by (simp add: is_double_def round_double_def)
  show ?thesis
  proof (cases "binade rnd = - 1")
    case True
    then have u: "ulp rnd = 1 / 2 ^ 53"
      by (simp add: ulp_def powr_neg_numeral)
    define n where "n = nearest_even (rnd / ulp rnd)"
    from rep have "rnd = of_int n * ulp rnd" by (simp only: n_def)
    then have "rnd = of_int n * (1 / 2 ^ 53)" by (simp only: u)
    then have r: "rnd = of_int n / 2 ^ 53" by simp
    with assms(3) have "real_of_int n < 2 ^ 53" by (simp add: divide_less_eq)
    then have "real_of_int n < real_of_int (2 ^ 53)" by simp
    then have "n < 2 ^ 53" by (simp only: of_int_less_iff)
    then have "n \<le> 2 ^ 53 - 1" by simp
    then have "real_of_int n \<le> real_of_int (2 ^ 53 - 1)" by (simp only: of_int_le_iff)
    then have "real_of_int n \<le> 2 ^ 53 - 1" by simp
    with r show ?thesis by (simp add: field_simps)
  next
    case False
    with b have "binade rnd + 1 \<le> - 1" by simp
    then have "2 powr real_of_int (binade rnd + 1) \<le> 2 powr real_of_int (- 1)"
      by (rule powr2_mono)
    with round_double_le_next_binade [OF pos] assms(1)
    have "rnd \<le> 2 powr real_of_int (- 1)" by (simp add: is_double_def)
    also have "\<dots> = 1 / 2" by (simp add: powr_minus_divide)
    finally show ?thesis by simp
  qed
qed

text \<open>
  The product of the largest double below 1 with 1000000 is closer to the double next
  below 1000000 than to 1000000, so no product rounds up to 1000000.
\<close>

lemma round_double_below_million:
  assumes "0 \<le> x" "x \<le> 1000000 - 1000000 / 2 ^ 53"
  shows "round_double x < 1000000"
proof (cases "x < 2 ^ 19")
  case True
  show ?thesis
  proof (cases "x = 0")
    case True
    then show ?thesis by (simp add: round_double_def)
  next
    case False
    with assms have pos: "0 < x" by simp
    have "binade x \<le> 18" using binade_le [of x 18] pos True by simp
    then have "binade x + 1 \<le> 19" by simp
    then have "2 powr real_of_int (binade x + 1) \<le> 2 powr real_of_int 19"
      by (rule powr2_mono)
    with round_double_le_next_binade [OF pos] have "round_double x \<le> 2 powr real_of_int 19"
      by simp
    also have "\<dots> = 2 ^ 19" by simp
    finally show ?thesis by simp
  qed
next
  case False
  then have lo: "2 ^ 19 \<le> x" by simp
  have "(0::real) < 2 ^ 19" by simp
  with lo have pos: "0 < x" by linarith
  have hi: "x < 2 ^ 20" using assms(2) by simp
  have b1: "2 powr real_of_int 19 \<le> x" using lo by simp
  have b2: "x < 2 powr real_of_int (19 + 1)" using hi by simp
  have b: "binade x = 19" using binade_eqI [OF pos b1 b2] by simp
  then have u: "ulp x = 1 / 2 ^ 33" by (simp add: ulp_def powr_neg_numeral)
  have "x / ulp x = x * 2 ^ 33" by (simp add: u)
  also have "\<dots> \<le> (1000000 - 1000000 / 2 ^ 53) * 2 ^ 33" using assms(2) by simp
  also have "\<dots> < of_int (1000000 * 2 ^ 33 - 1) + 1 / 2" by simp
  finally have "nearest_even (x / ulp x) \<le> 1000000 * 2 ^ 33 - 1" by (rule nearest_even_le)
  then have "real_of_int (nearest_even (x / ulp x)) \<le> real_of_int (1000000 * 2 ^ 33 - 1)"
    by (simp only: of_int_le_iff)
  then have "real_of_int (nearest_even (x / ulp x)) \<le> 1000000 * 2 ^ 33 - 1" by simp
  then have "round_double x \<le> (1000000 * 2 ^ 33 - 1) / 2 ^ 33"
    using pos by (simp add: round_double_def u field_simps)
  also have "\<dots> < 1000000" by simp
  finally show ?thesis .
qed

lemma generateId_range:
  assumes "is_double rnd" "0 \<le> rnd" "rnd < 1"
  shows "0 \<le> generateId rnd \<and> generateId rnd \<le> 999999"
proof -
  have le: "rnd \<le> 1 - 1 / 2 ^ 53" using assms by (rule double_below_one)
  have "0 \<le> rnd * 1000000" using assms(2) by simp
  moreover have "rnd * 1000000 \<le> 1000000 - 1000000 / 2 ^ 53" using le by simp
  ultimately have "round_double (rnd * 1000000) < 1000000"
    and "0 \<le> round_double (rnd * 1000000)"
    by (simp_all add: round_double_below_million round_double_nonneg)
  then show ?thesis
    by (simp add: generateId_def floor_less_iff le_floor_iff)
qed

lemma is_double_half: "is_double (1 / 2)"
proof -
  have "round_double (1 / 2) =
          of_int (nearest_even ((1 / 2) / 2 powr real_of_int (- 1 - 52))) *
          2 powr real_of_int (- 1 - 52)"
    by (rule round_double_in_binade) (simp_all add: powr_minus_divide)
  also have "\<dots> = 1 / 2"
    by (simp add: powr_neg_numeral nearest_even_def)
  finally show ?thesis by (simp add: is_double_def)
qed

lemma generateId_half: "generateId (1 / 2) = 500000"
proof -
  have "round_double 500000 =
          of_int (nearest_even (500000 / 2 powr real_of_int (18 - 52))) *
          2 powr real_of_int (18 - 52)"
    by (rule round_double_in_binade) simp_all
  also have "\<dots> = 500000"
    by (simp add: powr_neg_numeral nearest_even_def)
  finally show ?thesis by (simp add: generateId_def)
qed

text \<open>
  The id is the floor of the rounded product, not of the exact one: at the double nearest
  0.002359 the exact product is below 2359 and rounds to 2359.
\<close>

lemma generateId_rounds_the_product:
  "generateId (10623991520967 / 2 ^ 52) = 2359
   \<and> \<lfloor>(10623991520967 / 2 ^ 52) * 1000000 :: real\<rfloor> = 2358"
proof -
  let ?x = "10623991520967 / 2 ^ 52 * 1000000 :: real"
  have "round_double ?x =
          of_int (nearest_even (?x / 2 powr real_of_int (11 - 52))) * 2 powr real_of_int (11 - 52)"
    by (rule round_double_in_binade) simp_all
  also have "\<dots> = 2359"
    by (simp add: powr_neg_numeral nearest_even_def)
  finally have "generateId (10623991520967 / 2 ^ 52) = 2359" by (simp add: generateId_def)
  moreover have "\<lfloor>?x\<rfloor> = 2358" by simp
  ultimately show ?thesis by simp
qed

section \<open>Facts about the round trip and the handlers\<close>

lemma foldl_decode:
  "foldl (\<lambda>responseData chunk. responseData @ f chunk) acc chunks = acc @ concat (map f chunks)"
  by (induction chunks arbitrary: acc) simp_all

lemma received_concat: "received p chunks = concat (map (Buffer_toString p) chunks)"
  by (simp add: received_def foldl_decode)

lemma status_ok_iff:
  "status_ok statusCode \<longleftrightarrow> (\<exists>n. statusCode = Some n \<and> 200 \<le> n \<and> n \<le> 299)"
  by (auto simp: status_ok_def split: option.splits)

lemma makeHttpRequest_ResponseEnd:
  "remote p data = ResponseEnd statusCode chunks \<Longrightarrow>
   makeHttpRequest p data = on_end p statusCode (received p chunks)"
  by (simp add: makeHttpRequest_def)

lemma makeHttpRequest_ResponseAborted:
  "remote p data = ResponseAborted statusCode chunks \<Longrightarrow> makeHttpRequest p data = Pending"
  by (simp add: makeHttpRequest_def)

lemma handler_factors:
  "setupHandlers p s request rnd =
     reply_of (JSON_stringify p) s (makeHttpRequest p (outgoing s request rnd))"
  by (cases s)
     (simp_all add: tools_list_handler_def tools_call_handler_def resources_list_handler_def
        resources_read_handler_def prompts_list_handler_def prompts_get_handler_def)

lemma reply_of_Pending: "reply_of stringify s Pending = Pending"
  by (cases s)
     (simp_all add: tools_list_reply_def tools_list_try_def tools_call_reply_def
        tools_call_try_def resources_list_reply_def resources_list_try_def
        resources_read_reply_def resources_read_try_def prompts_list_reply_def
        prompts_list_try_def prompts_get_reply_def prompts_get_try_def)

text \<open>While the round trip is pending, so is the handler: it neither returns nor throws.\<close>

lemma handler_pending:
  "makeHttpRequest p (outgoing s request rnd) = Pending \<Longrightarrow>
   setupHandlers p s request rnd = Pending"
  by (simp add: handler_factors reply_of_Pending)

lemma reported_failure_awaited:
  assumes "reported_failure p data"
  shows "(\<exists>e. makeHttpRequest p data = Rejected e) \<or>
         (\<exists>response. makeHttpRequest p data = Resolved response \<and>
            (rs_result response = None \<or> rs_result response = Some JNull))"
  using assms
  by (auto simp: reported_failure_def makeHttpRequest_def on_end_def status_ok_def
        split: http_outcome.splits option.splits)

lemma resources_list_reply_fallback:
  "(\<exists>e. awaited = Rejected e) \<or>
   (\<exists>response. awaited = Resolved response \<and>
      (rs_result response = None \<or> rs_result response = Some JNull)) \<Longrightarrow>
   resources_list_reply awaited = Resolved (JObj [(''resources'', JArr [])])"
  by (auto simp: resources_list_reply_def resources_list_try_def or_default_def)

lemma resources_read_reply_fallback:
  "(\<exists>e. awaited = Rejected e) \<or>
   (\<exists>response. awaited = Resolved response \<and>
      (rs_result response = None \<or> rs_result response = Some JNull)) \<Longrightarrow>
   resources_read_reply awaited = Resolved (JObj [(''contents'', JArr [])])"
  by (auto simp: resources_read_reply_def resources_read_try_def or_default_def)

lemma prompts_list_reply_fallback:
  "(\<exists>e. awaited = Rejected e) \<or>
   (\<exists>response. awaited = Resolved response \<and>
      (rs_result response = None \<or> rs_result response = Some JNull)) \<Longrightarrow>
   prompts_list_reply awaited = Resolved (JObj [(''prompts'', JArr [])])"
  by (auto simp: prompts_list_reply_def prompts_list_try_def or_default_def)

lemma prompts_get_reply_fallback:
  "(\<exists>e. awaited = Rejected e) \<or>
   (\<exists>response. awaited = Resolved response \<and>
      (rs_result response = None \<or> rs_result response = Some JNull)) \<Longrightarrow>
   prompts_get_reply awaited =
     Resolved (JObj [(''description'', JStr []), (''messages'', JArr [])])"
  by (auto simp: prompts_get_reply_def prompts_get_try_def or_default_def)

lemma tools_list_reply_rejected:
  "tools_list_reply (Rejected e) = Rejected (Error (''Failed to get tools: '' @ message e))"
  by (simp add: tools_list_reply_def tools_list_try_def)

lemma tools_list_reply_error:
  "rs_error response = Some err \<Longrightarrow>
   tools_list_reply (Resolved response) =
     Rejected (Error (''Failed to get tools: '' @ err_message err))"
  by (simp add: tools_list_reply_def tools_list_try_def)

lemma tools_call_reply_rejected:
  "tools_call_reply stringify (Rejected e) =
     Rejected (Error (''Tool execution failed: '' @ message e))"
  by (simp add: tools_call_reply_def tools_call_try_def)

lemma tools_call_reply_error:
  "rs_error response = Some err \<Longrightarrow>
   tools_call_reply stringify (Resolved response) =
     Rejected (Error (''Tool execution failed: '' @ err_message err))"
  by (simp add: tools_call_reply_def tools_call_try_def)

lemma tool_reply_rejected:
  assumes "(s, prefix) \<in> {(ListToolsRequestSchema, ''Failed to get tools: ''),
                          (CallToolRequestSchema, ''Tool execution failed: '')}"
  shows "reply_of stringify s (Rejected e) = Rejected (Error (prefix @ message e))"
  using assms by (auto simp: tools_list_reply_rejected tools_call_reply_rejected)

lemma tool_reply_error:
  assumes "(s, prefix) \<in> {(ListToolsRequestSchema, ''Failed to get tools: ''),
                          (CallToolRequestSchema, ''Tool execution failed: '')}"
      and "rs_error response = Some err"
  shows "reply_of stringify s (Resolved response) = Rejected (Error (prefix @ err_message err))"
  using assms by (auto simp: tools_list_reply_error tools_call_reply_error)

text \<open>
  What the round trip does with a response that ends: it resolves, with the parsed
  response, exactly when the status is from 200 to 299 and the received text parses; any
  other status rejects with \<open>HTTP status: text\<close>, and a text that does not parse with
  \<open>Invalid JSON response: text\<close>. The text is the chunks decoded one by one.
\<close>

lemma ended_response_settles:
  assumes "remote p data = ResponseEnd statusCode chunks"
  shows "(\<forall>parsed. makeHttpRequest p data = Resolved parsed \<longleftrightarrow>
            (\<exists>n. statusCode = Some n \<and> 200 \<le> n \<and> n \<le> 299) \<and>
            JSON_parse p (concat (map (Buffer_toString p) chunks)) = Some parsed)
       \<and> (\<not> (\<exists>n. statusCode = Some n \<and> 200 \<le> n \<and> n \<le> 299) \<longrightarrow>
            makeHttpRequest p data =
              Rejected (Error (''HTTP '' @ status_text statusCode @ '': '' @
                               concat (map (Buffer_toString p) chunks))))
       \<and> ((\<exists>n. statusCode = Some n \<and> 200 \<le> n \<and> n \<le> 299) \<and>
          JSON_parse p (concat (map (Buffer_toString p) chunks)) = None \<longrightarrow>
            makeHttpRequest p data =
              Rejected (Error (''Invalid JSON response: '' @
                               concat (map (Buffer_toString p) chunks))))"
  unfolding makeHttpRequest_ResponseEnd [OF assms] received_concat
  by (auto simp: on_end_def status_ok_iff split: option.splits)

text \<open>
  The resource and prompt handlers return their fallback on every failure the round trip
  reports.
\<close>

lemma reported_failure_fallback:
  "(reported_failure p (resources_list_request rnd) \<longrightarrow>
      setupHandlers p ListResourcesRequestSchema request rnd =
        Resolved (JObj [(''resources'', JArr [])]))
 \<and> (reported_failure p (resources_read_request request rnd) \<longrightarrow>
      setupHandlers p ReadResourceRequestSchema request rnd =
        Resolved (JObj [(''contents'', JArr [])]))
 \<and> (reported_failure p (prompts_list_request rnd) \<longrightarrow>
      setupHandlers p ListPromptsRequestSchema request rnd =
        Resolved (JObj [(''prompts'', JArr [])]))
 \<and> (reported_failure p (prompts_get_request request rnd) \<longrightarrow>
      setupHandlers p GetPromptRequestSchema request rnd =
        Resolved (JObj [(''description'', JStr []), (''messages'', JArr [])]))"
  by (simp add: resources_list_handler_def resources_read_handler_def prompts_list_handler_def
        prompts_get_handler_def reported_failure_awaited resources_list_reply_fallback
        resources_read_reply_fallback prompts_list_reply_fallback prompts_get_reply_fallback)

text \<open>
  The tool handlers throw their prefix followed by the message of the cause on every
  rejected round trip and on every response that carries an error.
\<close>

lemma reported_failure_propagates:
  assumes tool: "(s, prefix) \<in> {(ListToolsRequestSchema, ''Failed to get tools: ''),
                                (CallToolRequestSchema, ''Tool execution failed: '')}"
  shows "(makeHttpRequest p (outgoing s request rnd) = Rejected e \<longrightarrow>
            setupHandlers p s request rnd = Rejected (Error (prefix @ message e)))
       \<and> (makeHttpRequest p (outgoing s request rnd) = Resolved response \<and>
          rs_error response = Some err \<longrightarrow>
            setupHandlers p s request rnd = Rejected (Error (prefix @ err_message err)))
       \<and> (remote p (outgoing s request rnd) = RequestTimeout \<longrightarrow>
            setupHandlers p s request rnd = Rejected (Error (prefix @ ''Request timeout'')))"
proof -
  note rejected = tool_reply_rejected [OF tool]
  have awaited: "makeHttpRequest p (outgoing s request rnd) = Rejected e \<longrightarrow>
      setupHandlers p s request rnd = Rejected (Error (prefix @ message e))"
    by (simp add: handler_factors rejected)
  have carried: "makeHttpRequest p (outgoing s request rnd) = Resolved response \<and>
      rs_error response = Some err \<longrightarrow>
      setupHandlers p s request rnd = Rejected (Error (prefix @ err_message err))"
    by (simp add: handler_factors tool_reply_error [OF tool])
  have timeout: "remote p (outgoing s request rnd) = RequestTimeout \<longrightarrow>
      setupHandlers p s request rnd = Rejected (Error (prefix @ ''Request timeout''))"
    by (auto simp: handler_factors rejected makeHttpRequest_def)
  from awaited carried timeout show ?thesis by blast
qed

text \<open>
  Once the probe has settled, either way, \<^verbatim>\<open>start\<close> connects the stdio transport; when
  that succeeds the session serves and the handlers answer.
\<close>

lemma settled_probe_reaches_serving:
  assumes "makeHttpRequest p initialize_request \<noteq> Pending" and "stdio_connect p = Inr ()"
  shows "st_state (start p) = Serving
       \<and> st_outcome (start p) = Resolved ()
       \<and> serve p s request rnd = Some (setupHandlers p s request rnd)
       \<and> (\<forall>e. makeHttpRequest p initialize_request = Rejected e \<longrightarrow>
            st_log (start p) =
              [LogStarting, LogProbeFailed (message e), LogContinuingAnyway,
               LogStartingStdio, LogBridgeStarted, LogWaiting])"
  using assms
  by (cases "makeHttpRequest p initialize_request")
     (simp_all add: start_def connect_stdio_def serve_def)

section \<open>Fallbacks of the resource and prompt handlers\<close>

text \<open>
  Claim C1 says that for resources/list, resources/read, prompts/list and prompts/get every
  remote failure, a transport-level error among them, makes the handler return the literal
  fallback of its method. The round trip listens to the request's error and timeout events
  and to the end of the response, and to nothing the response emits when the connection
  closes before its body has ended. On such a response the promise of the round trip is
  never settled and none of the four handlers returns: the remote answers with the head of
  a 200 response and the first byte of its body, and the connection closes.
\<close>

theorem cut_off_response_returns_no_fallback:
  "setupHandlers (endpoint Map.empty (ResponseAborted (Some 200) [''{'']))
     ListResourcesRequestSchema \<lparr>lr_id = NumId 3, lr_params = None\<rparr> 0 = Pending
   \<and> setupHandlers (endpoint Map.empty (ResponseAborted (Some 200) [''{'']))
       ReadResourceRequestSchema \<lparr>lr_id = NumId 3, lr_params = None\<rparr> 0 = Pending
   \<and> setupHandlers (endpoint Map.empty (ResponseAborted (Some 200) [''{'']))
       ListPromptsRequestSchema \<lparr>lr_id = NumId 3, lr_params = None\<rparr> 0 = Pending
   \<and> setupHandlers (endpoint Map.empty (ResponseAborted (Some 200) [''{'']))
       GetPromptRequestSchema \<lparr>lr_id = NumId 3, lr_params = None\<rparr> 0 = Pending
   \<and> setupHandlers (endpoint Map.empty (ResponseAborted (Some 200) [''{'']))
       ListResourcesRequestSchema \<lparr>lr_id = NumId 3, lr_params = None\<rparr> 0
     \<noteq> Resolved (JObj [(''resources'', JArr [])])"
  by (simp add: resources_list_handler_def resources_read_handler_def prompts_list_handler_def
        prompts_get_handler_def resources_list_reply_def resources_list_try_def
        resources_read_reply_def resources_read_try_def prompts_list_reply_def
        prompts_list_try_def prompts_get_reply_def prompts_get_try_def
        makeHttpRequest_def endpoint_def)

section \<open>Failures of the tool handlers\<close>

text \<open>
  Claim C2 says that for tools/list and tools/call every remote failure makes the handler
  throw an error whose message is the prefix of the method followed by the message of the
  cause. On a response whose connection closes before its body has ended (the failure of
  claim C1, the same missing listener) the round trip is never settled, and the two
  handlers throw nothing: they stay pending.
\<close>

theorem cut_off_response_throws_no_tool_failure:
  "setupHandlers (endpoint Map.empty (ResponseAborted (Some 200) [''{'']))
     ListToolsRequestSchema \<lparr>lr_id = NumId 3, lr_params = None\<rparr> 0 = Pending
   \<and> setupHandlers (endpoint Map.empty (ResponseAborted (Some 200) [''{'']))
       CallToolRequestSchema \<lparr>lr_id = NumId 3, lr_params = None\<rparr> 0 = Pending"
  by (simp add: tools_list_handler_def tools_call_handler_def tools_list_reply_def
        tools_list_try_def tools_call_reply_def tools_call_try_def makeHttpRequest_def
        endpoint_def)

text \<open>
  Claim C4. For tools/list and tools/call, a response that carries an error is never
  returned to the local session as a reply: the handler throws.
\<close>

theorem tool_error_never_success:
  assumes "s = ListToolsRequestSchema \<or> s = CallToolRequestSchema"
      and "makeHttpRequest p (outgoing s request rnd) = Resolved response"
      and "rs_error response \<noteq> None"
  shows "(\<exists>e. setupHandlers p s request rnd = Rejected e)
       \<and> (\<forall>reply. setupHandlers p s request rnd \<noteq> Resolved reply)"
  using assms
  by (auto simp: handler_factors tools_list_reply_def tools_list_try_def tools_call_reply_def
        tools_call_try_def)

theorem tool_error_never_success_witness:
  "makeHttpRequest
     (endpoint [''BODY'' \<mapsto> error_response 1 ''boom''] (ResponseEnd (Some 200) [''BO'', ''DY'']))
     (outgoing ListToolsRequestSchema \<lparr>lr_id = NumId 3, lr_params = None\<rparr> (1 / 2))
     = Resolved (error_response 1 ''boom'')
   \<and> rs_error (error_response 1 ''boom'') \<noteq> None
   \<and> (\<exists>e. setupHandlers
            (endpoint [''BODY'' \<mapsto> error_response 1 ''boom'']
               (ResponseEnd (Some 200) [''BO'', ''DY'']))
            ListToolsRequestSchema \<lparr>lr_id = NumId 3, lr_params = None\<rparr> (1 / 2) = Rejected e)"
proof -
  let ?p = "endpoint [''BODY'' \<mapsto> error_response 1 ''boom'']
              (ResponseEnd (Some 200) [''BO'', ''DY''])"
  let ?request = "\<lparr>lr_id = NumId 3, lr_params = None\<rparr>"
  have awaited: "makeHttpRequest ?p (outgoing ListToolsRequestSchema ?request (1 / 2))
                   = Resolved (error_response 1 ''boom'')"
    by (simp add: makeHttpRequest_def received_def on_end_def status_ok_def endpoint_def)
  have carried: "rs_error (error_response 1 ''boom'') \<noteq> None"
    by (simp add: error_response_def)
  from tool_error_never_success [OF _ awaited carried] awaited carried
  show ?thesis by blast
qed

section \<open>Correlation ids of outgoing requests\<close>

lemma outgoing_id: "rq_id (outgoing s request rnd) = NumId (generateId rnd)"
  by (cases s)
     (simp_all add: tools_list_request_def tools_call_request_def resources_list_request_def
        resources_read_request_def prompts_list_request_def prompts_get_request_def)

lemma generateId_zero: "generateId 0 = 0"
  by (simp add: generateId_def round_double_def)

text \<open>
  Claim C3 says that the id of every outgoing request lies in a range of positive integers
  and is never equal to, nor derived from, the id of the incoming local request. The code
  does less: when \<^verbatim>\<open>Math.random()\<close> returns a value below one millionth the id is 0, which
  is not positive, and nothing keeps the id apart from the incoming one. Here the random
  value is 0 and the local client chose the id 0 as well.
\<close>

theorem generated_id_zero_counterexample:
  "rq_id (outgoing CallToolRequestSchema \<lparr>lr_id = NumId 0, lr_params = None\<rparr> 0) = NumId 0
   \<and> \<not> 0 < generateId 0
   \<and> rq_id (outgoing CallToolRequestSchema \<lparr>lr_id = NumId 0, lr_params = None\<rparr> 0)
       = lr_id \<lparr>lr_id = NumId 0, lr_params = None\<rparr>"
  by (simp add: tools_call_request_def generateId_zero)

text \<open>
  Claim C3, amended. For every handler, every incoming request and every double
  \<^verbatim>\<open>Math.random()\<close> returns in \<open>[0, 1)\<close>, the id of the outgoing request is the number
  \<open>generateId rnd\<close>, an integer from 0 to 999999, and it is a function of the random value
  alone: two incoming requests give the same id under the same random value, so the id is
  not derived from the incoming id (it may coincide with it).
\<close>

theorem generated_id_range_and_independence:
  assumes "is_double rnd" and "0 \<le> rnd" and "rnd < 1"
  shows "rq_id (outgoing s request rnd) = NumId (generateId rnd)
       \<and> 0 \<le> generateId rnd \<and> generateId rnd \<le> 999999
       \<and> rq_id (outgoing s request rnd) = rq_id (outgoing s request' rnd)"
  using generateId_range [OF assms] by (simp add: outgoing_id)

theorem generated_id_range_and_independence_witness:
  "is_double (1 / 2) \<and> (0::real) \<le> 1 / 2 \<and> (1 / 2 :: real) < 1
   \<and> rq_id (outgoing CallToolRequestSchema \<lparr>lr_id = NumId 3, lr_params = None\<rparr> (1 / 2))
       = NumId 500000
   \<and> rq_id (outgoing CallToolRequestSchema \<lparr>lr_id = StrId ''abc'', lr_params = None\<rparr> (1 / 2))
       = NumId 500000"
proof -
  have lo: "(0::real) \<le> 1 / 2" and hi: "(1 / 2 :: real) < 1" by simp_all
  from generated_id_range_and_independence [OF is_double_half lo hi, of CallToolRequestSchema
      "\<lparr>lr_id = NumId 3, lr_params = None\<rparr>" "\<lparr>lr_id = StrId ''abc'', lr_params = None\<rparr>"]
    is_double_half lo hi generateId_half
  show ?thesis by auto
qed

section \<open>Successful replies\<close>

text \<open>
  Claim C5 says that tools/call returns \<open>{content: v}\<close> whenever the remote result holds a
  content value \<open>v\<close>, and that the text of the synthesized item is the serialised result
  whenever the result is present. The code decides both with \<^verbatim>\<open>||\<close>, by truthiness and
  not by presence. A result whose content is the empty string gets the synthesized item,
  not \<open>{content: ""}\<close>; and the result \<^verbatim>\<open>false\<close> is serialised as \<open>{}\<close>, not as \<open>false\<close>.
\<close>

theorem falsy_content_counterexample:
  "setupHandlers
     (endpoint [''BODY'' \<mapsto> success_response (JObj [(''content'', JStr [])])]
        (ResponseEnd (Some 200) [''BODY'']))
     CallToolRequestSchema \<lparr>lr_id = NumId 3, lr_params = None\<rparr> 0
     = Resolved (JObj [(''content'',
         JArr [JObj [(''type'', JStr ''text''),
                     (''text'', JStr (stringify_plain (JObj [(''content'', JStr [])])))]])])
   \<and> setupHandlers
       (endpoint [''BODY'' \<mapsto> success_response (JObj [(''content'', JStr [])])]
          (ResponseEnd (Some 200) [''BODY'']))
       CallToolRequestSchema \<lparr>lr_id = NumId 3, lr_params = None\<rparr> 0
     \<noteq> Resolved (JObj [(''content'', JStr [])])
   \<and> setupHandlers
       (endpoint [''BODY'' \<mapsto> success_response (JBool False)] (ResponseEnd (Some 200) [''BODY'']))
       CallToolRequestSchema \<lparr>lr_id = NumId 3, lr_params = None\<rparr> 0
     = Resolved (JObj [(''content'',
         JArr [JObj [(''type'', JStr ''text''), (''text'', JStr ''{}'')]])])
   \<and> stringify_plain (JBool False) = ''false''"
  by (simp add: tools_call_handler_def tools_call_reply_def tools_call_try_def tools_call_request_def
        makeHttpRequest_def received_def on_end_def status_ok_def endpoint_def
        success_response_def or_default_def)

text \<open>
  Claim C5, amended. For tools/call and a response without an error: when the result is an
  object whose content member is truthy (every array and object, every non-empty string,
  every number but zero, \<^verbatim>\<open>true\<close>) the reply is \<open>{content: that value}\<close>; otherwise the
  reply is \<open>{content: [{type: "text", text: t}]}\<close>, where \<open>t\<close> is the serialisation of the
  result when the result is truthy (an object without a truthy content member, or a truthy
  value that is no object), and of \<open>{}\<close> when the result is absent or falsy (\<^verbatim>\<open>null\<close>,
  \<^verbatim>\<open>false\<close>, zero, the empty string).
\<close>

theorem tools_call_content_or_text:
  assumes awaited: "makeHttpRequest p (tools_call_request request rnd) = Resolved response"
      and success: "rs_error response = None"
  shows "(rs_result response = Some (JObj fs) \<and> map_of fs ''content'' = Some c \<and> truthy c \<longrightarrow>
            setupHandlers p CallToolRequestSchema request rnd =
              Resolved (JObj [(''content'', c)]))
       \<and> (rs_result response = Some (JObj fs) \<and>
          (map_of fs ''content'' = None \<or> (\<exists>c. map_of fs ''content'' = Some c \<and> \<not> truthy c)) \<longrightarrow>
            setupHandlers p CallToolRequestSchema request rnd =
              Resolved (JObj [(''content'',
                JArr [JObj [(''type'', JStr ''text''),
                            (''text'', JStr (JSON_stringify p (JObj fs)))]])]))
       \<and> (rs_result response = Some r \<and> truthy r \<and> (\<forall>gs. r \<noteq> JObj gs) \<longrightarrow>
            setupHandlers p CallToolRequestSchema request rnd =
              Resolved (JObj [(''content'',
                JArr [JObj [(''type'', JStr ''text''), (''text'', JStr (JSON_stringify p r))]])]))
       \<and> (rs_result response = None \<or> (\<exists>r. rs_result response = Some r \<and> \<not> truthy r) \<longrightarrow>
            setupHandlers p CallToolRequestSchema request rnd =
              Resolved (JObj [(''content'',
                JArr [JObj [(''type'', JStr ''text''),
                            (''text'', JStr (JSON_stringify p (JObj [])))]])]))"
proof -
  have reply: "tools_call_handler p request rnd =
      Resolved (JObj [(''content'',
        or_default (opt_chain (rs_result response) ''content'')
          (JArr [JObj [(''type'', JStr ''text''),
                       (''text'', JStr (JSON_stringify p
                          (or_default (rs_result response) (JObj []))))]]))])"
    using awaited success
    by (simp add: tools_call_handler_def tools_call_reply_def tools_call_try_def)
  have present: "rs_result response = Some (JObj fs) \<and> map_of fs ''content'' = Some c \<and> truthy c \<longrightarrow>
      setupHandlers p CallToolRequestSchema request rnd = Resolved (JObj [(''content'', c)])"
    by (simp add: reply or_default_def)
  have missing: "rs_result response = Some (JObj fs) \<and>
      (map_of fs ''content'' = None \<or> (\<exists>c. map_of fs ''content'' = Some c \<and> \<not> truthy c)) \<longrightarrow>
      setupHandlers p CallToolRequestSchema request rnd =
        Resolved (JObj [(''content'',
          JArr [JObj [(''type'', JStr ''text''),
                      (''text'', JStr (JSON_stringify p (JObj fs)))]])])"
    by (auto simp: reply or_default_def)
  have other: "rs_result response = Some r \<and> truthy r \<and> (\<forall>gs. r \<noteq> JObj gs) \<longrightarrow>
      setupHandlers p CallToolRequestSchema request rnd =
        Resolved (JObj [(''content'',
          JArr [JObj [(''type'', JStr ''text''), (''text'', JStr (JSON_stringify p r))]])])"
    by (cases r) (auto simp: reply or_default_def)
  have absent: "rs_result response = None \<or> (\<exists>r. rs_result response = Some r \<and> \<not> truthy r) \<longrightarrow>
      setupHandlers p CallToolRequestSchema request rnd =
        Resolved (JObj [(''content'',
          JArr [JObj [(''type'', JStr ''text''),
                      (''text'', JStr (JSON_stringify p (JObj [])))]])])"
  proof (intro impI)
    assume "rs_result response = None \<or> (\<exists>r. rs_result response = Some r \<and> \<not> truthy r)"
    then show "setupHandlers p CallToolRequestSchema request rnd =
        Resolved (JObj [(''content'',
          JArr [JObj [(''type'', JStr ''text''),
                      (''text'', JStr (JSON_stringify p (JObj [])))]])])"
    proof
      assume "rs_result response = None"
      then show ?thesis by (simp add: reply or_default_def)
    next
      assume "\<exists>r. rs_result response = Some r \<and> \<not> truthy r"
      then obtain r where "rs_result response = Some r" "\<not> truthy r" by blast
      then show ?thesis by (cases r) (simp_all add: reply or_default_def)
    qed
  qed
  from present missing other absent show ?thesis by blast
qed

text \<open>A result with a content array, and a result without a content member.\<close>

theorem tools_call_content_or_text_witness:
  "setupHandlers
     (endpoint [''BODY'' \<mapsto> success_response (JObj [(''content'', JArr [JStr ''hi''])])]
        (ResponseEnd (Some 200) [''BODY'']))
     CallToolRequestSchema \<lparr>lr_id = NumId 3, lr_params = None\<rparr> 0
     = Resolved (JObj [(''content'', JArr [JStr ''hi''])])
   \<and> setupHandlers
       (endpoint [''BODY'' \<mapsto> success_response (JObj [(''ok'', JBool True)])]
          (ResponseEnd (Some 200) [''BODY'']))
       CallToolRequestSchema \<lparr>lr_id = NumId 3, lr_params = None\<rparr> 0
     = Resolved (JObj [(''content'',
         JArr [JObj [(''type'', JStr ''text''),
                     (''text'', JStr (stringify_plain (JObj [(''ok'', JBool True)])))]])])"
proof -
  let ?request = "\<lparr>lr_id = NumId 3, lr_params = None\<rparr>"
  let ?fs = "[(''content'', JArr [JStr ''hi''])]"
  let ?gs = "[(''ok'', JBool True)]"
  let ?p = "endpoint [''BODY'' \<mapsto> success_response (JObj ?fs)] (ResponseEnd (Some 200) [''BODY''])"
  let ?q = "endpoint [''BODY'' \<mapsto> success_response (JObj ?gs)] (ResponseEnd (Some 200) [''BODY''])"
  have p_awaited:
    "makeHttpRequest ?p (tools_call_request ?request 0) = Resolved (success_response (JObj ?fs))"
    and q_awaited:
    "makeHttpRequest ?q (tools_call_request ?request 0) = Resolved (success_response (JObj ?gs))"
    by (simp_all add: makeHttpRequest_def received_def on_end_def status_ok_def endpoint_def)
  have success: "rs_error (success_response v) = None" for v
    by (simp add: success_response_def)
  have first: "setupHandlers ?p CallToolRequestSchema ?request 0
                 = Resolved (JObj [(''content'', JArr [JStr ''hi''])])"
    using tools_call_content_or_text [OF p_awaited success, of ?fs "JArr [JStr ''hi'']"]
    by (simp add: success_response_def)
  have second: "setupHandlers ?q CallToolRequestSchema ?request 0 =
      Resolved (JObj [(''content'',
         JArr [JObj [(''type'', JStr ''text''),
                     (''text'', JStr (stringify_plain (JObj ?gs)))]])])"
    using tools_call_content_or_text [OF q_awaited success, of ?gs]
    by (simp add: success_response_def endpoint_def)
  from first second show ?thesis by blast
qed

lemma or_default_array: "is_array v \<Longrightarrow> or_default (Some v) d = v"
  by (cases v) (simp_all add: or_default_def)

lemma or_default_string: "is_string v \<Longrightarrow> or_default (Some v) (JStr []) = v"
  by (cases v) (simp_all add: or_default_def)

lemma array_length_converts: "is_array v \<Longrightarrow> length_of v = Some n \<Longrightarrow> \<not> to_string_throws n"
  by (cases v) (auto simp: length_of_def)

text \<open>
  Claim C6. For every handler, a successful response with a populated result (an object
  that holds each member the handler copies, an array, or a string for the description)
  gives the local reply that holds exactly these members with the values the remote sent,
  unchanged. Other members of the remote result are not part of the local shape.
\<close>

theorem populated_result_forwarded:
  assumes awaited: "makeHttpRequest p (outgoing s request rnd) = Resolved response"
      and success: "rs_error response = None"
      and result: "rs_result response = Some (JObj fs)"
      and populated: "populated s fs"
  shows "setupHandlers p s request rnd =
           Resolved (JObj (map (\<lambda>k. (k, the (map_of fs k))) (reply_members s)))"
proof (cases s)
  case ListToolsRequestSchema
  with populated obtain v where v: "map_of fs ''tools'' = Some v" "is_array v"
    by (auto simp: populated_def split: option.splits)
  then have "case length_of v of None \<Rightarrow> True | Some n \<Rightarrow> \<not> to_string_throws n"
    by (auto simp: array_length_converts split: option.splits)
  with v ListToolsRequestSchema awaited success result show ?thesis
    by (auto simp: handler_factors tools_list_reply_def tools_list_try_def or_default_array
          split: option.splits)
next
  case CallToolRequestSchema
  with populated obtain v where "map_of fs ''content'' = Some v" "is_array v"
    by (auto simp: populated_def split: option.splits)
  with CallToolRequestSchema awaited success result show ?thesis
    by (simp add: handler_factors tools_call_reply_def tools_call_try_def or_default_array)
next
  case ListResourcesRequestSchema
  with populated obtain v where "map_of fs ''resources'' = Some v" "is_array v"
    by (auto simp: populated_def split: option.splits)
  with ListResourcesRequestSchema awaited result show ?thesis
    by (simp add: handler_factors resources_list_reply_def resources_list_try_def
          or_default_array)
next
  case ReadResourceRequestSchema
  with populated obtain v where "map_of fs ''contents'' = Some v" "is_array v"
    by (auto simp: populated_def split: option.splits)
  with ReadResourceRequestSchema awaited result show ?thesis
    by (simp add: handler_factors resources_read_reply_def resources_read_try_def
          or_default_array)
next
  case ListPromptsRequestSchema
  with populated obtain v where "map_of fs ''prompts'' = Some v" "is_array v"
    by (auto simp: populated_def split: option.splits)
  with ListPromptsRequestSchema awaited result show ?thesis
    by (simp add: handler_factors prompts_list_reply_def prompts_list_try_def or_default_array)
next
  case GetPromptRequestSchema
  with populated obtain d m where
    "map_of fs ''description'' = Some d" "is_string d"
    "map_of fs ''messages'' = Some m" "is_array m"
    by (auto simp: populated_def split: option.splits)
  with GetPromptRequestSchema awaited result show ?thesis
    by (simp add: handler_factors prompts_get_reply_def prompts_get_try_def or_default_array
          or_default_string)
qed

text \<open>
  The scenario of the specification: the remote answers tools/list with
  \<open>{result: {tools: [{name: "echo"}]}}\<close>.
\<close>

theorem populated_result_forwarded_witness:
  "setupHandlers
     (endpoint
        [''BODY'' \<mapsto> success_response (JObj [(''tools'', JArr [JObj [(''name'', JStr ''echo'')]])])]
        (ResponseEnd (Some 200) [''BODY'']))
     ListToolsRequestSchema \<lparr>lr_id = NumId 3, lr_params = None\<rparr> 0
   = Resolved (JObj [(''tools'', JArr [JObj [(''name'', JStr ''echo'')]])])"
proof -
  let ?fs = "[(''tools'', JArr [JObj [(''name'', JStr ''echo'')]])]"
  let ?p = "endpoint [''BODY'' \<mapsto> success_response (JObj ?fs)] (ResponseEnd (Some 200) [''BODY''])"
  let ?request = "\<lparr>lr_id = NumId 3, lr_params = None\<rparr>"
  have awaited: "makeHttpRequest ?p (outgoing ListToolsRequestSchema ?request 0)
                   = Resolved (success_response (JObj ?fs))"
    by (simp add: makeHttpRequest_def received_def on_end_def status_ok_def endpoint_def)
  have success: "rs_error (success_response (JObj ?fs)) = None"
    and result: "rs_result (success_response (JObj ?fs)) = Some (JObj ?fs)"
    by (simp_all add: success_response_def)
  have populated: "populated ListToolsRequestSchema ?fs"
    by (simp add: populated_def)
  from populated_result_forwarded [OF awaited success result populated]
  show ?thesis by simp
qed

text \<open>
  Claim C9. The reply of a handler is a function of the response it awaited: two calls of
  the handler of one schema, whatever the incoming requests, the random values and the
  endpoints, return the same reply (or throw the same error) when their round trips settle
  with the same outcome, under the one serialiser of the process.
\<close>

theorem reply_is_function_of_response:
  assumes "makeHttpRequest p (outgoing s request rnd) =
           makeHttpRequest p' (outgoing s request' rnd')"
      and "JSON_stringify p = JSON_stringify p'"
  shows "setupHandlers p s request rnd = setupHandlers p' s request' rnd'"
  using assms by (simp add: handler_factors)

theorem reply_is_function_of_response_witness:
  "setupHandlers
     (endpoint [''BODY'' \<mapsto> success_response (JObj [(''resources'', JArr [JStr ''a''])])]
        (ResponseEnd (Some 200) [''BODY'']))
     ListResourcesRequestSchema \<lparr>lr_id = NumId 3, lr_params = None\<rparr> 0
   = setupHandlers
     (endpoint [''BODY'' \<mapsto> success_response (JObj [(''resources'', JArr [JStr ''a''])])]
        (ResponseEnd (Some 200) [''BO'', ''DY'']))
     ListResourcesRequestSchema \<lparr>lr_id = StrId ''x'', lr_params = Some JNull\<rparr> (1 / 2)"
proof -
  let ?table = "[''BODY'' \<mapsto> success_response (JObj [(''resources'', JArr [JStr ''a''])])]"
  let ?p = "endpoint ?table (ResponseEnd (Some 200) [''BODY''])"
  let ?p' = "endpoint ?table (ResponseEnd (Some 200) [''BO'', ''DY''])"
  have same:
    "makeHttpRequest ?p
       (outgoing ListResourcesRequestSchema \<lparr>lr_id = NumId 3, lr_params = None\<rparr> 0)
     = makeHttpRequest ?p'
       (outgoing ListResourcesRequestSchema \<lparr>lr_id = StrId ''x'', lr_params = Some JNull\<rparr> (1 / 2))"
    by (simp add: makeHttpRequest_def received_def on_end_def status_ok_def endpoint_def)
  have serialiser: "JSON_stringify ?p = JSON_stringify ?p'"
    by (simp add: endpoint_def)
  from reply_is_function_of_response [OF same serialiser] show ?thesis .
qed

section \<open>The remote caller\<close>

text \<open>
  Claim C7 says that \<^verbatim>\<open>makeHttpRequest\<close> resolves exactly when the status is from 200 to
  299 and the body parses, fails on every other status with an error that carries the raw
  body, and fails on a body that does not parse with an error that carries the raw body.
  The code fails on a status only in the handler of the response's end, so a response with
  status 500 whose connection closes before its body has ended fails with nothing: the
  promise stays pending (the missing listener of claims C1, C2 and C8). And the text it
  parses and reports is not the body decoded but the chunks decoded one by one: when the
  two bytes of one character arrive in two chunks, each becomes a replacement character.
\<close>

theorem cut_off_or_split_body_is_not_reported:
  "makeHttpRequest (endpoint Map.empty (ResponseAborted (Some 500) [''Internal '']))
     initialize_request = Pending
   \<and> makeHttpRequest (endpoint Map.empty (ResponseEnd (Some 500) [[CHR 0xC3], [CHR 0xA9]]))
       initialize_request = Rejected (Error (''HTTP 500: '' @ replacement @ replacement))
   \<and> utf8_text (concat [[CHR 0xC3], [CHR 0xA9]]) = [CHR 0xC3, CHR 0xA9]
   \<and> makeHttpRequest (endpoint Map.empty (ResponseEnd (Some 500) [[CHR 0xC3], [CHR 0xA9]]))
       initialize_request
     \<noteq> Rejected (Error (''HTTP 500: '' @ utf8_text (concat [[CHR 0xC3], [CHR 0xA9]])))"
  by (simp add: makeHttpRequest_def received_def on_end_def status_ok_def status_text_def
        show_nat.simps endpoint_def replacement_def)

section \<open>The startup probe\<close>

text \<open>
  Claim C8 says that whatever becomes of the initialize probe, \<^verbatim>\<open>start\<close> only logs a
  failure and the session goes on to serve. When the connection of the probe closes
  before the body of its response has ended, the probe is never settled (the missing
  listener of claims C1, C2 and C7): \<^verbatim>\<open>start\<close> stays at its \<^verbatim>\<open>await\<close>, logs no failure,
  never calls \<^verbatim>\<open>server.connect\<close>, and no request of the local client is ever read.
\<close>

theorem cut_off_probe_never_serves:
  "st_state (start (endpoint Map.empty (ResponseAborted (Some 200) [''{'']))) = Probing
   \<and> st_outcome (start (endpoint Map.empty (ResponseAborted (Some 200) [''{'']))) = Pending
   \<and> st_log (start (endpoint Map.empty (ResponseAborted (Some 200) [''{'']))) = [LogStarting]
   \<and> stdio_connect (endpoint Map.empty (ResponseAborted (Some 200) [''{''])) = Inr ()
   \<and> serve (endpoint Map.empty (ResponseAborted (Some 200) [''{'']))
       ListToolsRequestSchema \<lparr>lr_id = NumId 3, lr_params = None\<rparr> 0 = None"
  by (simp add: serve_def start_def makeHttpRequest_def endpoint_def)

section \<open>Parameters of outgoing requests\<close>

text \<open>
  Claim C10. The requests of tools/list, resources/list and prompts/list carry the empty
  object as their parameters whatever the incoming request holds: the incoming parameters
  do not reach the remote endpoint, and the handler's answer is the same for every
  incoming request. The requests of tools/call, resources/read and prompts/get carry the
  incoming parameters as they are.
\<close>

theorem list_requests_carry_empty_params:
  "(s \<in> {ListToolsRequestSchema, ListResourcesRequestSchema, ListPromptsRequestSchema} \<longrightarrow>
      rq_params (outgoing s request rnd) = Some (JObj [])
      \<and> outgoing s request rnd = outgoing s request' rnd
      \<and> setupHandlers p s request rnd = setupHandlers p s request' rnd)
 \<and> (s \<in> {CallToolRequestSchema, ReadResourceRequestSchema, GetPromptRequestSchema} \<longrightarrow>
      rq_params (outgoing s request rnd) = lr_params request)"
  by (auto simp: handler_factors tools_list_request_def tools_call_request_def
        resources_list_request_def resources_read_request_def prompts_list_request_def
        prompts_get_request_def)

theorem list_requests_carry_empty_params_witness:
  "rq_params (outgoing ListToolsRequestSchema
      \<lparr>lr_id = NumId 3, lr_params = Some (JObj [(''cursor'', JStr ''page2'')])\<rparr> 0) = Some (JObj [])
   \<and> rq_params (outgoing CallToolRequestSchema
      \<lparr>lr_id = NumId 3, lr_params = Some (JObj [(''name'', JStr ''echo'')])\<rparr> 0)
       = Some (JObj [(''name'', JStr ''echo'')])"
  using list_requests_carry_empty_params [of ListToolsRequestSchema
      "\<lparr>lr_id = NumId 3, lr_params = Some (JObj [(''cursor'', JStr ''page2'')])\<rparr>" 0]
    list_requests_carry_empty_params [of CallToolRequestSchema
      "\<lparr>lr_id = NumId 3, lr_params = Some (JObj [(''name'', JStr ''echo'')])\<rparr>" 0]
  by simp

end
